theory Spec2Isabelle
  imports Complex_Main
begin

section \<open>Python values\<close>

text \<open>
  The validator and the generator of \<^verbatim>\<open>src/app.py\<close> walk document trees as
  \<^verbatim>\<open>yaml.safe_load\<close> and \<^verbatim>\<open>request.get_json\<close> build them: \<^verbatim>\<open>None\<close>, booleans,
  unbounded integers, floats, strings, lists and dicts (the timestamps, binary strings and
  sets that YAML tags can also produce are left out). A float is kept as the rational
  it denotes, or as one of the three special values; the code only asks a float whether
  it is zero and how it compares with 0 and 1, and both answers are exact on rationals.
  A dict is an association list in insertion order; a lookup takes the first entry of
  a key.
\<close>

datatype pyfloat = Finite rat | PosInf | NegInf | NaN

datatype pyval =
    PNone
  | PBool bool
  | PInt int
  | PFloat pyfloat
  | PStr string
  | PList "pyval list"
  | PDict "(pyval \<times> pyval) list"

text \<open>The exceptions the core can raise; a raise is the left injection of the result.\<close>

datatype pyerr = TypeError | KeyError | AttributeError | ValueError

definition bindE :: "pyerr + 'a \<Rightarrow> ('a \<Rightarrow> pyerr + 'b) \<Rightarrow> pyerr + 'b" where
  "bindE m f = (case m of Inl e \<Rightarrow> Inl e | Inr x \<Rightarrow> f x)"

subsection \<open>Operators of the language\<close>

text \<open>\<^verbatim>\<open>k in s\<close> for two strings: \<open>k\<close> occurs in \<open>s\<close> as a contiguous run.\<close>

fun starts_with :: "string \<Rightarrow> string \<Rightarrow> bool" where
  "starts_with [] s = True"
| "starts_with (c # k) [] = False"
| "starts_with (c # k) (d # s) = (c = d \<and> starts_with k s)"

fun py_substring :: "string \<Rightarrow> string \<Rightarrow> bool" where
  "py_substring k [] = (k = [])"
| "py_substring k (d # s) = (starts_with k (d # s) \<or> py_substring k s)"

definition dict_get :: "(pyval \<times> pyval) list \<Rightarrow> string \<Rightarrow> pyval option" where
  "dict_get d k = map_of d (PStr k)"

text \<open>
  \<^verbatim>\<open>k in v\<close> for a string literal \<open>k\<close>: a key test on a dict, an element test on a list,
  a substring test on a string, and \<^verbatim>\<open>TypeError\<close> on everything else.
\<close>

fun py_contains :: "string \<Rightarrow> pyval \<Rightarrow> pyerr + bool" where
  "py_contains k (PDict d) = Inr (dict_get d k \<noteq> None)"
| "py_contains k (PList xs) = Inr (PStr k \<in> set xs)"
| "py_contains k (PStr s) = Inr (py_substring k s)"
| "py_contains k v = Inl TypeError"

text \<open>\<^verbatim>\<open>v[k]\<close> for a string literal \<open>k\<close>: only a dict can be indexed by a string.\<close>

fun py_getitem :: "pyval \<Rightarrow> string \<Rightarrow> pyerr + pyval" where
  "py_getitem (PDict d) k = (case dict_get d k of None \<Rightarrow> Inl KeyError | Some x \<Rightarrow> Inr x)"
| "py_getitem v k = Inl TypeError"

text \<open>\<^verbatim>\<open>v.get(k, default)\<close>: only a dict has the method.\<close>

fun py_get :: "pyval \<Rightarrow> string \<Rightarrow> pyval \<Rightarrow> pyerr + pyval" where
  "py_get (PDict d) k dflt = Inr (case dict_get d k of None \<Rightarrow> dflt | Some x \<Rightarrow> x)"
| "py_get v k dflt = Inl AttributeError"

text \<open>
  The items a \<^verbatim>\<open>for\<close> loop sees: the elements of a list, the keys of a dict, the
  characters of a string; anything else is not iterable.
\<close>

fun py_iter :: "pyval \<Rightarrow> pyerr + pyval list" where
  "py_iter (PList xs) = Inr xs"
| "py_iter (PDict d) = Inr (map fst d)"
| "py_iter (PStr s) = Inr (map (\<lambda>c. PStr [c]) s)"
| "py_iter v = Inl TypeError"

text \<open>Truth value of a value, as \<^verbatim>\<open>not v\<close>, \<^verbatim>\<open>if v\<close> and \<^verbatim>\<open>v or w\<close> take it.\<close>

fun truthy :: "pyval \<Rightarrow> bool" where
  "truthy PNone = False"
| "truthy (PBool b) = b"
| "truthy (PInt i) = (i \<noteq> 0)"
| "truthy (PFloat x) = (x \<noteq> Finite 0)"
| "truthy (PStr s) = (s \<noteq> [])"
| "truthy (PList xs) = (xs \<noteq> [])"
| "truthy (PDict d) = (d \<noteq> [])"

text \<open>
  \<^verbatim>\<open>isinstance(v, bool)\<close>; \<^verbatim>\<open>isinstance(v, int)\<close> with the integer it is (\<^verbatim>\<open>bool\<close> is a
  subclass of \<^verbatim>\<open>int\<close>); \<^verbatim>\<open>isinstance(v, (int, float))\<close> with the number it is.
\<close>

fun isinstance_bool :: "pyval \<Rightarrow> bool" where
  "isinstance_bool (PBool b) = True"
| "isinstance_bool v = False"

fun int_of :: "pyval \<Rightarrow> int option" where
  "int_of (PBool b) = Some (if b then 1 else 0)"
| "int_of (PInt i) = Some i"
| "int_of v = None"

fun number_of :: "pyval \<Rightarrow> pyfloat option" where
  "number_of (PBool b) = Some (Finite (if b then 1 else 0))"
| "number_of (PInt i) = Some (Finite (of_int i))"
| "number_of (PFloat x) = Some x"
| "number_of v = None"

text \<open>\<^verbatim>\<open>x < y\<close> on numbers: false as soon as one side is not a number.\<close>

fun float_lt :: "pyfloat \<Rightarrow> pyfloat \<Rightarrow> bool" where
  "float_lt NaN y = False"
| "float_lt x NaN = False"
| "float_lt x NegInf = False"
| "float_lt PosInf y = False"
| "float_lt NegInf y = True"
| "float_lt x PosInf = True"
| "float_lt (Finite a) (Finite b) = (a < b)"

subsection \<open>Formatting\<close>

fun str_nat :: "nat \<Rightarrow> string" where
  "str_nat n =
     (if n < 10 then [''0123456789'' ! n]
      else str_nat (n div 10) @ [''0123456789'' ! (n mod 10)])"

declare str_nat.simps [simp del]

text \<open>
  The text of an integer. Since CPython 3.11 the conversion raises \<^verbatim>\<open>ValueError\<close> when
  the integer has more decimal digits than \<^verbatim>\<open>sys.get_int_max_str_digits()\<close>, 4300 unless
  the process changes it; the sign is not counted. The index of a loop is the position
  in a list held in memory, far below that bound, and is printed by \<open>str_nat\<close> itself.
\<close>

definition int_max_str_digits :: nat where
  "int_max_str_digits = 4300"

definition str_int :: "int \<Rightarrow> pyerr + string" where
  "str_int i =
     (let digits = str_nat (nat \<bar>i\<bar>)
      in if int_max_str_digits < length digits then Inl ValueError
         else Inr (if i < 0 then CHR ''-'' # digits else digits))"

text \<open>
  What an f-string puts for \<^verbatim>\<open>{v}\<close>, or the exception the formatting raises. A string
  stands for itself. The texts of floats, lists and dicts are not modelled: they come
  from the parameter \<open>rp\<close>, which may raise as well (a list that holds an integer with
  too many digits does).
\<close>

fun py_str :: "(pyval \<Rightarrow> pyerr + string) \<Rightarrow> pyval \<Rightarrow> pyerr + string" where
  "py_str rp (PStr s) = Inr s"
| "py_str rp PNone = Inr ''None''"
| "py_str rp (PBool b) = Inr (if b then ''True'' else ''False'')"
| "py_str rp (PInt i) = str_int i"
| "py_str rp v = rp v"

definition sq :: string where
  "sq = [CHR 0x27]"

subsection \<open>Loops\<close>

text \<open>
  \<^verbatim>\<open>for x in xs\<close> and \<^verbatim>\<open>for i, x in enumerate(xs)\<close> over a body that updates a state
  and may raise; a raise leaves the loop and the function.
\<close>

fun for_each :: "('a \<Rightarrow> 's \<Rightarrow> pyerr + 's) \<Rightarrow> 'a list \<Rightarrow> 's \<Rightarrow> pyerr + 's" where
  "for_each body [] s = Inr s"
| "for_each body (x # xs) s =
     (case body x s of Inl e \<Rightarrow> Inl e | Inr s' \<Rightarrow> for_each body xs s')"

fun for_enumerate :: "(nat \<Rightarrow> 'a \<Rightarrow> 's \<Rightarrow> pyerr + 's) \<Rightarrow> nat \<Rightarrow> 'a list \<Rightarrow> 's \<Rightarrow> pyerr + 's" where
  "for_enumerate body i [] s = Inr s"
| "for_enumerate body i (x # xs) s =
     (case body i x s of Inl e \<Rightarrow> Inl e | Inr s' \<Rightarrow> for_enumerate body (Suc i) xs s')"

section \<open>The plugin schema registry\<close>

definition SUPPORTED_PLUGINS :: "string list" where
  "SUPPORTED_PLUGINS =
     [''semantic-cache'', ''jailbreak'', ''pii'', ''system_prompt'',
      ''header_mutation'', ''hallucination'', ''router_replay'']"

record plugin_schema =
  required :: "string list"
  optional :: "string list"

definition PLUGIN_SCHEMAS :: "(string \<times> plugin_schema) list" where
  "PLUGIN_SCHEMAS =
     [(''semantic-cache'',
         \<lparr>required = [''enabled''], optional = [''similarity_threshold'', ''ttl_seconds'']\<rparr>),
      (''jailbreak'', \<lparr>required = [''enabled''], optional = [''threshold'']\<rparr>),
      (''pii'', \<lparr>required = [''enabled''], optional = [''threshold'', ''pii_types_allowed'']\<rparr>),
      (''system_prompt'', \<lparr>required = [''enabled''], optional = [''system_prompt'', ''mode'']\<rparr>),
      (''header_mutation'', \<lparr>required = [], optional = [''add'', ''update'', ''delete'']\<rparr>),
      (''hallucination'',
         \<lparr>required = [''enabled''], optional = [''use_nli'', ''hallucination_action'']\<rparr>),
      (''router_replay'',
         \<lparr>required = [''enabled''],
          optional = [''max_records'', ''capture_request_body'', ''capture_response_body'',
                      ''max_body_bytes'']\<rparr>)]"

text \<open>
  \<^verbatim>\<open>PLUGIN_SCHEMAS.get(plugin_type, {}).get('required', [])\<close>; a value that is not a
  string equals no key of the table.
\<close>

definition schema_required :: "pyval \<Rightarrow> string list" where
  "schema_required plugin_type =
     (case plugin_type of
        PStr t \<Rightarrow> (case map_of PLUGIN_SCHEMAS t of None \<Rightarrow> [] | Some sc \<Rightarrow> required sc)
      | _ \<Rightarrow> [])"

section \<open>validate_plugin\<close>

text \<open>
  Each check of the source is one state transformer on the list \<^verbatim>\<open>errors\<close>, in the
  source's order; \<open>pt\<close> is the text of \<^verbatim>\<open>{plugin_type}\<close>. The checks run only for a
  \<^verbatim>\<open>plugin_type\<close> that equals one of the strings of \<^verbatim>\<open>SUPPORTED_PLUGINS\<close>; formatting a
  string returns the string and cannot raise, so its text is taken once, where the
  checks start.
\<close>

definition check_required_field :: "string \<Rightarrow> pyval \<Rightarrow> string \<Rightarrow> string list \<Rightarrow> pyerr + string list" where
  "check_required_field pt config field errs =
     bindE (py_contains field config) (\<lambda>present.
       Inr (if \<not> present
            then errs @ [''Plugin '' @ sq @ pt @ sq @ '' missing required field: '' @ field]
            else errs))"

definition check_enabled :: "string \<Rightarrow> pyval \<Rightarrow> string list \<Rightarrow> pyerr + string list" where
  "check_enabled pt config errs =
     bindE (py_contains ''enabled'' config) (\<lambda>present.
       if \<not> present then Inr errs
       else bindE (py_getitem config ''enabled'') (\<lambda>v.
         Inr (if \<not> isinstance_bool v
              then errs @ [''Plugin '' @ sq @ pt @ sq @ '': 'enabled' must be a boolean'']
              else errs)))"

text \<open>
  \<^verbatim>\<open>not isinstance(threshold, (int, float)) or threshold < 0 or threshold > 1\<close>
\<close>

definition bad_threshold :: "pyval \<Rightarrow> bool" where
  "bad_threshold threshold =
     (case number_of threshold of
        None \<Rightarrow> True
      | Some x \<Rightarrow> float_lt x (Finite 0) \<or> float_lt (Finite 1) x)"

definition check_threshold :: "string \<Rightarrow> pyval \<Rightarrow> string list \<Rightarrow> pyerr + string list" where
  "check_threshold pt config errs =
     bindE (py_contains ''threshold'' config) (\<lambda>has_t.
     bindE (if has_t then Inr True else py_contains ''similarity_threshold'' config) (\<lambda>has_any.
       if \<not> has_any then Inr errs
       else bindE (py_get config ''threshold'' PNone) (\<lambda>t.
            bindE (if truthy t then Inr t else py_get config ''similarity_threshold'' PNone)
              (\<lambda>threshold.
                Inr (if bad_threshold threshold
                     then errs @ [''Plugin '' @ sq @ pt @ sq @ '': threshold must be between 0.0 and 1.0'']
                     else errs)))))"

definition check_ttl_seconds :: "string \<Rightarrow> pyval \<Rightarrow> string list \<Rightarrow> pyerr + string list" where
  "check_ttl_seconds pt config errs =
     bindE (py_contains ''ttl_seconds'' config) (\<lambda>present.
       if \<not> present then Inr errs
       else bindE (py_getitem config ''ttl_seconds'') (\<lambda>v.
         Inr (if (case int_of v of None \<Rightarrow> True | Some n \<Rightarrow> n < 0)
              then errs @ [''Plugin '' @ sq @ pt @ sq @ '': ttl_seconds must be a non-negative integer'']
              else errs)))"

definition check_max_records :: "string \<Rightarrow> pyval \<Rightarrow> string list \<Rightarrow> pyerr + string list" where
  "check_max_records pt config errs =
     bindE (py_contains ''max_records'' config) (\<lambda>present.
       if \<not> present then Inr errs
       else bindE (py_getitem config ''max_records'') (\<lambda>v.
         Inr (if (case int_of v of None \<Rightarrow> True | Some n \<Rightarrow> n \<le> 0)
              then errs @ [''Plugin '' @ sq @ pt @ sq @ '': max_records must be a positive integer'']
              else errs)))"

definition check_mode :: "string \<Rightarrow> pyval \<Rightarrow> string list \<Rightarrow> pyerr + string list" where
  "check_mode pt config errs =
     bindE (py_contains ''mode'' config) (\<lambda>present.
       if \<not> present then Inr errs
       else bindE (py_getitem config ''mode'') (\<lambda>v.
         Inr (if v \<notin> set [PStr ''replace'', PStr ''insert'']
              then errs @ [''Plugin '' @ sq @ pt @ sq @ '': mode must be 'replace' or '' @ sq @ ''insert'' @ sq]
              else errs)))"

definition validate_plugin :: "(pyval \<Rightarrow> pyerr + string) \<Rightarrow> pyval \<Rightarrow> pyerr + string list" where
  "validate_plugin rp plugin =
     bindE (py_contains ''type'' plugin) (\<lambda>has_type.
       if \<not> has_type then Inr [''Plugin missing 'type' field'']
       else bindE (py_getitem plugin ''type'') (\<lambda>plugin_type.
         if plugin_type \<notin> set (map PStr SUPPORTED_PLUGINS)
         then bindE (py_str rp plugin_type) (\<lambda>pt.
                Inr [''Unsupported plugin type: '' @ pt])
         else bindE (py_contains ''configuration'' plugin) (\<lambda>has_configuration.
           if \<not> has_configuration
           then bindE (py_str rp plugin_type) (\<lambda>pt.
                  Inr [''Plugin '' @ sq @ pt @ sq @ '' missing 'configuration' field''])
           else bindE (py_getitem plugin ''configuration'') (\<lambda>config.
             bindE (py_str rp plugin_type) (\<lambda>pt.
             bindE (for_each (check_required_field pt config) (schema_required plugin_type) [])
               (\<lambda>errs.
             bindE (check_enabled pt config errs) (\<lambda>errs.
             bindE (check_threshold pt config errs) (\<lambda>errs.
             bindE (check_ttl_seconds pt config errs) (\<lambda>errs.
             bindE (check_max_records pt config errs) (\<lambda>errs.
             check_mode pt config errs))))))))))"

section \<open>validate_config\<close>

record validation_result =
  valid :: bool
  errors :: "string list"

definition check_endpoint :: "nat \<Rightarrow> nat \<Rightarrow> pyval \<Rightarrow> string list \<Rightarrow> pyerr + string list" where
  "check_endpoint i j endpoint errs =
     bindE (py_contains ''name'' endpoint) (\<lambda>has_name.
       let errs1 = (if \<not> has_name
                    then errs @ [''Listener '' @ str_nat i @ '', endpoint '' @ str_nat j
                                 @ '' missing 'name' field'']
                    else errs) in
       bindE (py_contains ''url'' endpoint) (\<lambda>has_url.
         Inr (if \<not> has_url
              then errs1 @ [''Listener '' @ str_nat i @ '', endpoint '' @ str_nat j
                            @ '' missing 'url' field'']
              else errs1)))"

definition check_listener :: "nat \<Rightarrow> pyval \<Rightarrow> string list \<Rightarrow> pyerr + string list" where
  "check_listener i listener errs =
     bindE (py_contains ''port'' listener) (\<lambda>has_port.
     bindE (if \<not> has_port
            then Inr (errs @ [''Listener '' @ str_nat i @ '' missing 'port' field''])
            else bindE (py_getitem listener ''port'') (\<lambda>port.
              Inr (if (case int_of port of None \<Rightarrow> True | Some n \<Rightarrow> n \<le> 0)
                   then errs @ [''Listener '' @ str_nat i @ '': port must be a positive integer'']
                   else errs)))
       (\<lambda>errs1.
     bindE (py_contains ''endpoints'' listener) (\<lambda>has_endpoints.
       if \<not> has_endpoints then Inr errs1
       else bindE (py_getitem listener ''endpoints'') (\<lambda>endpoints.
            bindE (py_iter endpoints) (\<lambda>items.
              for_enumerate (check_endpoint i) 0 items errs1)))))"

definition check_plugin :: "(pyval \<Rightarrow> pyerr + string) \<Rightarrow> nat \<Rightarrow> pyval \<Rightarrow> string list \<Rightarrow> pyerr + string list" where
  "check_plugin rp i plugin errs =
     bindE (validate_plugin rp plugin) (\<lambda>plugin_errors.
       Inr (errs @ map (\<lambda>e. ''Decision '' @ str_nat i @ '': '' @ e) plugin_errors))"

definition check_decision :: "(pyval \<Rightarrow> pyerr + string) \<Rightarrow> nat \<Rightarrow> pyval \<Rightarrow> string list \<Rightarrow> pyerr + string list" where
  "check_decision rp i decision errs =
     bindE (py_contains ''name'' decision) (\<lambda>has_name.
       let errs1 = (if \<not> has_name
                    then errs @ [''Decision '' @ str_nat i @ '' missing 'name' field'']
                    else errs) in
       bindE (py_contains ''endpoint'' decision) (\<lambda>has_endpoint.
         let errs2 = (if \<not> has_endpoint
                      then errs1 @ [''Decision '' @ str_nat i @ '' missing 'endpoint' field'']
                      else errs1) in
         bindE (py_contains ''plugins'' decision) (\<lambda>has_plugins.
           if \<not> has_plugins then Inr errs2
           else bindE (py_getitem decision ''plugins'') (\<lambda>plugins.
                bindE (py_iter plugins) (\<lambda>items.
                  for_each (check_plugin rp i) items errs2)))))"

definition validate_config :: "(pyval \<Rightarrow> pyerr + string) \<Rightarrow> pyval \<Rightarrow> pyerr + validation_result" where
  "validate_config rp config =
     bindE (py_contains ''version'' config) (\<lambda>has_version.
       let errs0 = (if \<not> has_version
                    then [''Configuration missing 'version' field'']
                    else []) in
       bindE (py_contains ''listeners'' config) (\<lambda>has_listeners.
       bindE (if \<not> has_listeners
              then Inr (errs0 @ [''Configuration missing 'listeners' field''])
              else bindE (py_getitem config ''listeners'') (\<lambda>listeners.
                   bindE (py_iter listeners) (\<lambda>items.
                     for_enumerate check_listener 0 items errs0)))
         (\<lambda>errs1.
       bindE (py_contains ''decisions'' config) (\<lambda>has_decisions.
       bindE (if \<not> has_decisions then Inr errs1
              else bindE (py_getitem config ''decisions'') (\<lambda>decisions.
                   bindE (py_iter decisions) (\<lambda>items.
                     for_enumerate (check_decision rp) 0 items errs1)))
         (\<lambda>errs2.
       Inr \<lparr>valid = (length errs2 = 0), errors = errs2\<rparr>)))))"

section \<open>generate_config\<close>

definition default_endpoint :: pyval where
  "default_endpoint =
     PDict [(PStr ''name'', PStr ''default''),
            (PStr ''url'', PStr ''http://localhost:8000/v1/chat/completions'')]"

text \<open>The body of the loop over the endpoints: one decision appended per endpoint.\<close>

definition add_decision :: "(pyval \<Rightarrow> pyerr + string) \<Rightarrow> pyval \<Rightarrow> pyval \<Rightarrow> pyval list \<Rightarrow> pyerr + pyval list" where
  "add_decision rp plugins endpoint decisions =
     bindE (py_getitem endpoint ''name'') (\<lambda>name1.
     bindE (py_str rp name1) (\<lambda>text.
     bindE (py_getitem endpoint ''name'') (\<lambda>name2.
       let decision = [(PStr ''name'', PStr (text @ ''_route'')),
                       (PStr ''endpoint'', name2)];
           decision' = (if truthy plugins then decision @ [(PStr ''plugins'', plugins)]
                        else decision)
       in Inr (decisions @ [PDict decision']))))"

text \<open>The configuration tree that the last line of the source hands to \<^verbatim>\<open>yaml.dump\<close>.\<close>

definition generate_document :: "(pyval \<Rightarrow> pyerr + string) \<Rightarrow> pyval \<Rightarrow> pyerr + pyval" where
  "generate_document rp params =
     bindE (py_get params ''version'' (PStr ''1.0'')) (\<lambda>version.
     bindE (py_get params ''port'' (PInt 8888)) (\<lambda>port.
     bindE (py_get params ''endpoints'' (PList [])) (\<lambda>endpoints0.
       let endpoints = (if \<not> truthy endpoints0 then PList [default_endpoint] else endpoints0);
           listener = PDict [(PStr ''port'', port), (PStr ''endpoints'', endpoints)];
           listeners = [listener]
       in
     bindE (py_get params ''plugins'' (PList [])) (\<lambda>plugins.
     bindE (py_iter endpoints) (\<lambda>items.
     bindE (for_each (add_decision rp plugins) items []) (\<lambda>decisions.
       Inr (PDict [(PStr ''version'', version),
                   (PStr ''listeners'', PList listeners),
                   (PStr ''decisions'', PList decisions)])))))))"

text \<open>
  \<^verbatim>\<open>yaml.dump\<close> belongs to a library; it is the parameter \<open>dump\<close>, a total function from
  trees to text.
\<close>

definition generate_config :: "(pyval \<Rightarrow> string) \<Rightarrow> (pyval \<Rightarrow> pyerr + string) \<Rightarrow> pyval \<Rightarrow> pyerr + string" where
  "generate_config dump rp params =
     bindE (generate_document rp params) (\<lambda>config. Inr (dump config))"

section \<open>Document shapes\<close>




definition has_text :: "(pyval \<Rightarrow> pyerr + string) \<Rightarrow> pyval \<Rightarrow> bool" where
  "has_text rp v = (case py_str rp v of Inl e \<Rightarrow> False | Inr s \<Rightarrow> True)"






text \<open>
  A parameter bag is a mapping whose \<^verbatim>\<open>endpoints\<close>, when present, is falsy (and then
  replaced by the default endpoint) or a list of mappings that each have a \<^verbatim>\<open>name\<close>
  with a text.
\<close>

fun has_name :: "(pyval \<Rightarrow> pyerr + string) \<Rightarrow> pyval \<Rightarrow> bool" where
  "has_name rp (PDict m) = (case dict_get m ''name'' of None \<Rightarrow> False | Some n \<Rightarrow> has_text rp n)"
| "has_name rp v = False"



section \<open>What the validator reports on a document of the expected shape\<close>

text \<open>
  The checks of \<open>validate_plugin\<close> and \<open>validate_config\<close> read as a function from the
  tree to the list of defects, to compare the two functions with: check by check what
  is reported, in the order of the source, and nothing for what lies under a missing
  key. The threshold that is tested is the one the source selects: the value of
  \<^verbatim>\<open>threshold\<close> when it is truthy, else the value of \<^verbatim>\<open>similarity_threshold\<close>, a
  missing key counting as \<^verbatim>\<open>None\<close>.
\<close>

definition required_defects :: "string \<Rightarrow> (pyval \<times> pyval) list \<Rightarrow> string list \<Rightarrow> string list" where
  "required_defects pt c fs =
     map (\<lambda>f. ''Plugin '' @ sq @ pt @ sq @ '' missing required field: '' @ f)
         (filter (\<lambda>f. dict_get c f = None) fs)"

definition enabled_defects :: "string \<Rightarrow> (pyval \<times> pyval) list \<Rightarrow> string list" where
  "enabled_defects pt c =
     (case dict_get c ''enabled'' of
        None \<Rightarrow> []
      | Some v \<Rightarrow> if isinstance_bool v then []
                  else [''Plugin '' @ sq @ pt @ sq @ '': 'enabled' must be a boolean''])"

definition selected_threshold :: "(pyval \<times> pyval) list \<Rightarrow> pyval" where
  "selected_threshold c =
     (let t = (case dict_get c ''threshold'' of None \<Rightarrow> PNone | Some v \<Rightarrow> v)
      in if truthy t then t
         else (case dict_get c ''similarity_threshold'' of None \<Rightarrow> PNone | Some v \<Rightarrow> v))"

definition threshold_defects :: "string \<Rightarrow> (pyval \<times> pyval) list \<Rightarrow> string list" where
  "threshold_defects pt c =
     (if dict_get c ''threshold'' = None \<and> dict_get c ''similarity_threshold'' = None then []
      else if bad_threshold (selected_threshold c)
           then [''Plugin '' @ sq @ pt @ sq @ '': threshold must be between 0.0 and 1.0'']
           else [])"

definition ttl_seconds_defects :: "string \<Rightarrow> (pyval \<times> pyval) list \<Rightarrow> string list" where
  "ttl_seconds_defects pt c =
     (case dict_get c ''ttl_seconds'' of
        None \<Rightarrow> []
      | Some v \<Rightarrow> if (case int_of v of None \<Rightarrow> True | Some n \<Rightarrow> n < 0)
                  then [''Plugin '' @ sq @ pt @ sq @ '': ttl_seconds must be a non-negative integer'']
                  else [])"

definition max_records_defects :: "string \<Rightarrow> (pyval \<times> pyval) list \<Rightarrow> string list" where
  "max_records_defects pt c =
     (case dict_get c ''max_records'' of
        None \<Rightarrow> []
      | Some v \<Rightarrow> if (case int_of v of None \<Rightarrow> True | Some n \<Rightarrow> n \<le> 0)
                  then [''Plugin '' @ sq @ pt @ sq @ '': max_records must be a positive integer'']
                  else [])"

definition mode_defects :: "string \<Rightarrow> (pyval \<times> pyval) list \<Rightarrow> string list" where
  "mode_defects pt c =
     (case dict_get c ''mode'' of
        None \<Rightarrow> []
      | Some v \<Rightarrow> if v = PStr ''replace'' \<or> v = PStr ''insert'' then []
                  else [''Plugin '' @ sq @ pt @ sq @ '': mode must be 'replace' or '' @ sq
                        @ ''insert'' @ sq])"

definition configuration_defects :: "string \<Rightarrow> (pyval \<times> pyval) list \<Rightarrow> string list" where
  "configuration_defects pt c =
     required_defects pt c (schema_required (PStr pt)) @ enabled_defects pt c
     @ threshold_defects pt c @ ttl_seconds_defects pt c @ max_records_defects pt c
     @ mode_defects pt c"







text \<open>
  The concrete inputs below never print a float, a list or a dict; where a closed
  statement needs an instance of \<open>rp\<close> or \<open>dump\<close>, it is one of these.
\<close>

definition opaque_repr :: "pyval \<Rightarrow> pyerr + string" where
  "opaque_repr v = Inr ''<value>''"

definition opaque_dump :: "pyval \<Rightarrow> string" where
  "opaque_dump doc = ''<yaml>''"

section \<open>Properties\<close>

lemmas plugin_check_defs =
  check_required_field_def check_enabled_def check_threshold_def
  check_ttl_seconds_def check_max_records_def check_mode_def

subsection \<open>Strings, the registry and the sequencing of raises\<close>

lemma starts_with_set: "starts_with k s \<Longrightarrow> set k \<subseteq> set s"
  by (induction k s rule: starts_with.induct) auto

lemma py_substring_set: "py_substring k s \<Longrightarrow> set k \<subseteq> set s"
proof (induction s)
  case Nil
  then show ?case by simp
next
  case (Cons d s)
  from Cons.prems have "starts_with k (d # s) \<or> py_substring k s" by simp
  then show ?case
  proof
    assume "starts_with k (d # s)"
    then show ?thesis by (rule starts_with_set)
  next
    assume "py_substring k s"
    then have "set k \<subseteq> set s" by (rule Cons.IH)
    then show ?thesis by auto
  qed
qed

lemma starts_with_append: "starts_with k (k @ s)"
  by (induction k) auto

lemma py_substring_starts: "starts_with k s \<Longrightarrow> py_substring k s"
  by (cases s; cases k) auto

lemma py_substring_append: "py_substring k (a @ k @ b)"
  by (induction a) (auto simp: py_substring_starts starts_with_append)

lemma supported_cases:
  "t \<in> set SUPPORTED_PLUGINS \<Longrightarrow>
   t = ''semantic-cache'' \<or> t = ''jailbreak'' \<or> t = ''pii'' \<or> t = ''system_prompt''
   \<or> t = ''header_mutation'' \<or> t = ''hallucination'' \<or> t = ''router_replay''"
  by (simp add: SUPPORTED_PLUGINS_def)

lemma supported_no_dot: "t \<in> set SUPPORTED_PLUGINS \<Longrightarrow> CHR ''.'' \<notin> set t"
  by (drule supported_cases) (elim disjE; simp)

lemma supported_required:
  "t \<in> set SUPPORTED_PLUGINS \<Longrightarrow>
   schema_required (PStr t) = (if t = ''header_mutation'' then [] else [''enabled''])"
  by (drule supported_cases) (elim disjE; simp add: schema_required_def PLUGIN_SCHEMAS_def)

lemma bindE_Inr: "bindE (Inr x) f = f x"
  by (simp add: bindE_def)

lemma bindE_Inl: "bindE (Inl e) f = Inl e"
  by (simp add: bindE_def)

lemma PStr_mem_map: "(PStr t \<in> set (map PStr ts)) = (t \<in> set ts)"
  by auto

subsection \<open>The validation result\<close>

text \<open>
  C7. Whenever \<open>validate_config\<close> returns a result, its \<open>valid\<close> flag is true exactly
  when its \<open>errors\<close> list is empty.
\<close>

theorem validate_config_valid_iff_no_errors:
  "validate_config rp config = Inr res \<Longrightarrow> valid res = (errors res = [])"
  by (auto simp: validate_config_def bindE_def Let_def split: sum.splits if_splits)

theorem validate_config_valid_iff_no_errors_witness:
  "validate_config opaque_repr (PDict []) =
     Inr \<lparr>valid = False,
          errors = [''Configuration missing 'version' field'',
                    ''Configuration missing 'listeners' field'']\<rparr>
   \<and> valid \<lparr>valid = False,
             errors = [''Configuration missing 'version' field'',
                       ''Configuration missing 'listeners' field'']\<rparr>
       = (errors \<lparr>valid = False,
                  errors = [''Configuration missing 'version' field'',
                            ''Configuration missing 'listeners' field'']\<rparr> = [])"
proof -
  have ran: "validate_config opaque_repr (PDict []) =
     Inr \<lparr>valid = False,
          errors = [''Configuration missing 'version' field'',
                    ''Configuration missing 'listeners' field'']\<rparr>"
    by (simp add: validate_config_def bindE_def dict_get_def)
  from ran validate_config_valid_iff_no_errors [OF ran] show ?thesis
    by (rule conjI)
qed

subsection \<open>Plugins without a type\<close>

text \<open>
  C5. For every plugin value on which the test \<^verbatim>\<open>'type' in plugin\<close> is false (for a
  mapping: it has no key \<^verbatim>\<open>type\<close>), \<open>validate_plugin\<close> returns exactly the list
  \<^verbatim>\<open>["Plugin missing 'type' field"]\<close>; whatever else the plugin carries, no other
  check contributes a defect.
\<close>

theorem validate_plugin_missing_type:
  "py_contains ''type'' plugin = Inr False \<Longrightarrow>
   validate_plugin rp plugin = Inr [''Plugin missing 'type' field'']"
  by (simp add: validate_plugin_def bindE_def)

theorem validate_plugin_missing_type_witness:
  "py_contains ''type''
     (PDict [(PStr ''configuration'',
              PDict [(PStr ''enabled'', PInt 3), (PStr ''threshold'', PInt 5),
                     (PStr ''ttl_seconds'', PInt (- 1)), (PStr ''max_records'', PInt 0),
                     (PStr ''mode'', PStr ''append'')])]) = Inr False
   \<and> validate_plugin opaque_repr
     (PDict [(PStr ''configuration'',
              PDict [(PStr ''enabled'', PInt 3), (PStr ''threshold'', PInt 5),
                     (PStr ''ttl_seconds'', PInt (- 1)), (PStr ''max_records'', PInt 0),
                     (PStr ''mode'', PStr ''append'')])]) = Inr [''Plugin missing 'type' field'']"
proof -
  have absent: "py_contains ''type''
     (PDict [(PStr ''configuration'',
              PDict [(PStr ''enabled'', PInt 3), (PStr ''threshold'', PInt 5),
                     (PStr ''ttl_seconds'', PInt (- 1)), (PStr ''max_records'', PInt 0),
                     (PStr ''mode'', PStr ''append'')])]) = Inr False"
    by (simp add: dict_get_def)
  from absent validate_plugin_missing_type [OF absent] show ?thesis
    by (rule conjI)
qed

subsection \<open>The generator on the empty parameter bag\<close>

text \<open>
  C4. On the empty parameter bag the generator builds the document with version
  \<^verbatim>\<open>1.0\<close>, one listener on port 8888 holding the one endpoint \<^verbatim>\<open>default\<close>, and the
  one decision \<^verbatim>\<open>default_route\<close> whose endpoint is \<^verbatim>\<open>default\<close>; \<open>generate_config\<close>
  returns the text of that document, and \<open>validate_config\<close> on the document returns
  \<^verbatim>\<open>{valid: true, errors: []}\<close>.
\<close>

theorem generate_empty_round_trip:
  "(let doc = PDict
       [(PStr ''version'', PStr ''1.0''),
        (PStr ''listeners'',
         PList [PDict [(PStr ''port'', PInt 8888),
                       (PStr ''endpoints'',
                        PList [PDict [(PStr ''name'', PStr ''default''),
                                      (PStr ''url'',
                                       PStr ''http://localhost:8000/v1/chat/completions'')]])]]),
        (PStr ''decisions'',
         PList [PDict [(PStr ''name'', PStr ''default_route''),
                       (PStr ''endpoint'', PStr ''default'')]])]
    in generate_document rp (PDict []) = Inr doc
     \<and> generate_config dump rp (PDict []) = Inr (dump doc)
     \<and> validate_config rp doc = Inr \<lparr>valid = True, errors = []\<rparr>)"
proof -
  have gen: "generate_document rp (PDict []) = Inr (PDict
       [(PStr ''version'', PStr ''1.0''),
        (PStr ''listeners'',
         PList [PDict [(PStr ''port'', PInt 8888),
                       (PStr ''endpoints'',
                        PList [PDict [(PStr ''name'', PStr ''default''),
                                      (PStr ''url'',
                                       PStr ''http://localhost:8000/v1/chat/completions'')]])]]),
        (PStr ''decisions'',
         PList [PDict [(PStr ''name'', PStr ''default_route''),
                       (PStr ''endpoint'', PStr ''default'')]])])"
    by (simp add: generate_document_def bindE_def dict_get_def default_endpoint_def
        add_decision_def)
  have val: "validate_config rp (PDict
       [(PStr ''version'', PStr ''1.0''),
        (PStr ''listeners'',
         PList [PDict [(PStr ''port'', PInt 8888),
                       (PStr ''endpoints'',
                        PList [PDict [(PStr ''name'', PStr ''default''),
                                      (PStr ''url'',
                                       PStr ''http://localhost:8000/v1/chat/completions'')]])]]),
        (PStr ''decisions'',
         PList [PDict [(PStr ''name'', PStr ''default_route''),
                       (PStr ''endpoint'', PStr ''default'')]])])
      = Inr \<lparr>valid = True, errors = []\<rparr>"
    by (simp add: validate_config_def bindE_def dict_get_def check_listener_def
        check_endpoint_def check_decision_def)
  show ?thesis
    unfolding Let_def generate_config_def gen val by (simp add: bindE_def)
qed

subsection \<open>The checks of a plugin whose configuration is a mapping\<close>

text \<open>
  On a mapping every check returns and appends what its rule prescribes. Of all the
  defects of a configuration only the threshold defect contains a full stop, which
  separates it from the others.
\<close>

lemma check_required_field_mapping:
  "check_required_field pt (PDict c) field errs =
     Inr (errs @ required_defects pt c [field])"
  by (simp add: check_required_field_def required_defects_def bindE_Inr)

lemma required_defects_Cons:
  "required_defects pt c (f # fs) = required_defects pt c [f] @ required_defects pt c fs"
  by (simp add: required_defects_def)

lemma for_each_required_mapping:
  "for_each (check_required_field pt (PDict c)) fs errs = Inr (errs @ required_defects pt c fs)"
proof (induction fs arbitrary: errs)
  case Nil
  show ?case by (simp add: required_defects_def)
next
  case (Cons f fs)
  have "for_each (check_required_field pt (PDict c)) (f # fs) errs
        = for_each (check_required_field pt (PDict c)) fs (errs @ required_defects pt c [f])"
    by (simp add: check_required_field_mapping)
  also have "\<dots> = Inr ((errs @ required_defects pt c [f]) @ required_defects pt c fs)"
    by (rule Cons.IH)
  finally show ?case
    by (simp add: required_defects_Cons [of pt c f fs])
qed

lemma check_enabled_mapping:
  "check_enabled pt (PDict c) errs = Inr (errs @ enabled_defects pt c)"
  by (simp add: check_enabled_def enabled_defects_def bindE_Inr split: option.split)

lemma check_threshold_mapping:
  "check_threshold pt (PDict c) errs = Inr (errs @ threshold_defects pt c)"
  by (simp add: check_threshold_def threshold_defects_def selected_threshold_def bindE_Inr
      Let_def)

lemma check_ttl_seconds_mapping:
  "check_ttl_seconds pt (PDict c) errs = Inr (errs @ ttl_seconds_defects pt c)"
  by (simp add: check_ttl_seconds_def ttl_seconds_defects_def bindE_Inr split: option.split)

lemma check_max_records_mapping:
  "check_max_records pt (PDict c) errs = Inr (errs @ max_records_defects pt c)"
  by (simp add: check_max_records_def max_records_defects_def bindE_Inr split: option.split)

lemma check_mode_mapping:
  "check_mode pt (PDict c) errs = Inr (errs @ mode_defects pt c)"
  by (simp add: check_mode_def mode_defects_def bindE_Inr split: option.split)

lemma validate_plugin_supported:
  assumes "t \<in> set SUPPORTED_PLUGINS"
    and "dict_get p ''type'' = Some (PStr t)"
    and "dict_get p ''configuration'' = Some config"
  shows "validate_plugin rp (PDict p) =
     bindE (for_each (check_required_field t config) (schema_required (PStr t)) []) (\<lambda>errs.
     bindE (check_enabled t config errs) (\<lambda>errs.
     bindE (check_threshold t config errs) (\<lambda>errs.
     bindE (check_ttl_seconds t config errs) (\<lambda>errs.
     bindE (check_max_records t config errs) (\<lambda>errs.
     check_mode t config errs)))))"
  using assms by (simp add: validate_plugin_def bindE_Inr PStr_mem_map)

lemma validate_plugin_configuration:
  assumes "t \<in> set SUPPORTED_PLUGINS"
    and "dict_get p ''type'' = Some (PStr t)"
    and "dict_get p ''configuration'' = Some (PDict c)"
  shows "validate_plugin rp (PDict p) = Inr (configuration_defects t c)"
  by (simp add: validate_plugin_supported [OF assms] for_each_required_mapping
      check_enabled_mapping check_threshold_mapping check_ttl_seconds_mapping
      check_max_records_mapping check_mode_mapping bindE_Inr configuration_defects_def)

lemma required_defects_dot_free:
  assumes "CHR ''.'' \<notin> set pt" and "\<forall>f\<in>set fs. CHR ''.'' \<notin> set f"
  shows "\<forall>e\<in>set (required_defects pt c fs). CHR ''.'' \<notin> set e"
  using assms by (auto simp: required_defects_def sq_def)

lemma enabled_defects_dot_free:
  "CHR ''.'' \<notin> set pt \<Longrightarrow> \<forall>e\<in>set (enabled_defects pt c). CHR ''.'' \<notin> set e"
  by (auto simp: enabled_defects_def sq_def split: option.splits if_splits)

lemma ttl_seconds_defects_dot_free:
  "CHR ''.'' \<notin> set pt \<Longrightarrow> \<forall>e\<in>set (ttl_seconds_defects pt c). CHR ''.'' \<notin> set e"
  by (auto simp: ttl_seconds_defects_def sq_def split: option.splits if_splits)

lemma max_records_defects_dot_free:
  "CHR ''.'' \<notin> set pt \<Longrightarrow> \<forall>e\<in>set (max_records_defects pt c). CHR ''.'' \<notin> set e"
  by (auto simp: max_records_defects_def sq_def split: option.splits if_splits)

lemma mode_defects_dot_free:
  "CHR ''.'' \<notin> set pt \<Longrightarrow> \<forall>e\<in>set (mode_defects pt c). CHR ''.'' \<notin> set e"
  by (auto simp: mode_defects_def sq_def split: option.splits if_splits)

lemma validate_plugin_mapping_config:
  assumes "t \<in> set SUPPORTED_PLUGINS"
    and "dict_get p ''type'' = Some (PStr t)"
    and "dict_get p ''configuration'' = Some (PDict c)"
  shows "\<exists>pre thr post.
           validate_plugin rp (PDict p) = Inr (pre @ thr @ post)
         \<and> check_threshold t (PDict c) [] = Inr thr
         \<and> (\<forall>e\<in>set (pre @ post). CHR ''.'' \<notin> set e)"
proof -
  have nd: "CHR ''.'' \<notin> set t" using assms(1) by (rule supported_no_dot)
  have nf: "\<forall>f\<in>set (schema_required (PStr t)). CHR ''.'' \<notin> set f"
    using assms(1) by (simp add: supported_required)
  define pre where
    "pre = required_defects t c (schema_required (PStr t)) @ enabled_defects t c"
  define post where
    "post = ttl_seconds_defects t c @ max_records_defects t c @ mode_defects t c"
  have "validate_plugin rp (PDict p) = Inr (pre @ threshold_defects t c @ post)"
    by (simp add: validate_plugin_configuration [OF assms] configuration_defects_def
        pre_def post_def)
  moreover have "check_threshold t (PDict c) [] = Inr (threshold_defects t c)"
    by (simp add: check_threshold_mapping)
  moreover have "\<forall>e\<in>set (pre @ post). CHR ''.'' \<notin> set e"
    using required_defects_dot_free [OF nd nf, of c] enabled_defects_dot_free [OF nd, of c]
      ttl_seconds_defects_dot_free [OF nd, of c] max_records_defects_dot_free [OF nd, of c]
      mode_defects_dot_free [OF nd, of c]
    by (auto simp: pre_def post_def)
  ultimately show ?thesis by blast
qed

subsection \<open>Missing required field\<close>

text \<open>
  C6. For every supported plugin type whose schema requires \<^verbatim>\<open>enabled\<close>: when the
  configuration is a mapping with none of the keys \<^verbatim>\<open>enabled\<close>, \<^verbatim>\<open>threshold\<close>,
  \<^verbatim>\<open>similarity_threshold\<close>, \<^verbatim>\<open>ttl_seconds\<close>, \<^verbatim>\<open>max_records\<close>, \<^verbatim>\<open>mode\<close>, the result
  of \<open>validate_plugin\<close> is exactly the one defect
  \<^verbatim>\<open>Plugin '{type}' missing required field: enabled\<close>. No schema requires any other
  field, so nothing needs to be assumed about other required fields.
\<close>

theorem missing_enabled_single_defect:
  assumes "t \<in> set SUPPORTED_PLUGINS"
    and "''enabled'' \<in> set (schema_required (PStr t))"
    and "dict_get p ''type'' = Some (PStr t)"
    and "dict_get p ''configuration'' = Some (PDict c)"
    and "dict_get c ''enabled'' = None"
    and "dict_get c ''threshold'' = None"
    and "dict_get c ''similarity_threshold'' = None"
    and "dict_get c ''ttl_seconds'' = None"
    and "dict_get c ''max_records'' = None"
    and "dict_get c ''mode'' = None"
  shows "validate_plugin rp (PDict p) =
           Inr [''Plugin '' @ sq @ t @ sq @ '' missing required field: enabled'']"
proof -
  have "schema_required (PStr t) = [''enabled'']"
    using assms(1,2) by (simp add: supported_required split: if_splits)
  then show ?thesis
    using assms(5-10)
    by (simp add: validate_plugin_supported [OF assms(1,3,4)] plugin_check_defs bindE_Inr)
qed

theorem missing_enabled_single_defect_witness:
  "''pii'' \<in> set SUPPORTED_PLUGINS
   \<and> ''enabled'' \<in> set (schema_required (PStr ''pii''))
   \<and> dict_get [(PStr ''type'', PStr ''pii''),
                (PStr ''configuration'', PDict [(PStr ''pii_types_allowed'', PList [])])] ''type''
       = Some (PStr ''pii'')
   \<and> dict_get [(PStr ''type'', PStr ''pii''),
                (PStr ''configuration'', PDict [(PStr ''pii_types_allowed'', PList [])])]
         ''configuration''
       = Some (PDict [(PStr ''pii_types_allowed'', PList [])])
   \<and> dict_get [(PStr ''pii_types_allowed'', PList [])] ''enabled'' = None
   \<and> dict_get [(PStr ''pii_types_allowed'', PList [])] ''threshold'' = None
   \<and> dict_get [(PStr ''pii_types_allowed'', PList [])] ''similarity_threshold'' = None
   \<and> dict_get [(PStr ''pii_types_allowed'', PList [])] ''ttl_seconds'' = None
   \<and> dict_get [(PStr ''pii_types_allowed'', PList [])] ''max_records'' = None
   \<and> dict_get [(PStr ''pii_types_allowed'', PList [])] ''mode'' = None
   \<and> validate_plugin opaque_repr
        (PDict [(PStr ''type'', PStr ''pii''),
                (PStr ''configuration'', PDict [(PStr ''pii_types_allowed'', PList [])])])
       = Inr [''Plugin '' @ sq @ ''pii'' @ sq @ '' missing required field: enabled'']"
proof -
  have h1: "''pii'' \<in> set SUPPORTED_PLUGINS"
    by (simp add: SUPPORTED_PLUGINS_def)
  have h2: "''enabled'' \<in> set (schema_required (PStr ''pii''))"
    by (simp add: schema_required_def PLUGIN_SCHEMAS_def)
  have h3: "dict_get [(PStr ''type'', PStr ''pii''),
                (PStr ''configuration'', PDict [(PStr ''pii_types_allowed'', PList [])])] ''type''
       = Some (PStr ''pii'')"
    by (simp add: dict_get_def)
  have h4: "dict_get [(PStr ''type'', PStr ''pii''),
                (PStr ''configuration'', PDict [(PStr ''pii_types_allowed'', PList [])])]
         ''configuration''
       = Some (PDict [(PStr ''pii_types_allowed'', PList [])])"
    by (simp add: dict_get_def)
  have h5: "dict_get [(PStr ''pii_types_allowed'', PList [])] ''enabled'' = None"
    by (simp add: dict_get_def)
  have h6: "dict_get [(PStr ''pii_types_allowed'', PList [])] ''threshold'' = None"
    by (simp add: dict_get_def)
  have h7: "dict_get [(PStr ''pii_types_allowed'', PList [])] ''similarity_threshold'' = None"
    by (simp add: dict_get_def)
  have h8: "dict_get [(PStr ''pii_types_allowed'', PList [])] ''ttl_seconds'' = None"
    by (simp add: dict_get_def)
  have h9: "dict_get [(PStr ''pii_types_allowed'', PList [])] ''max_records'' = None"
    by (simp add: dict_get_def)
  have h10: "dict_get [(PStr ''pii_types_allowed'', PList [])] ''mode'' = None"
    by (simp add: dict_get_def)
  from h1 h2 h3 h4 h5 h6 h7 h8 h9 h10
    missing_enabled_single_defect [OF h1 h2 h3 h4 h5 h6 h7 h8 h9 h10, of opaque_repr]
  show ?thesis by (intro conjI)
qed

subsection \<open>The threshold check\<close>

text \<open>
  C2, at the boundary value. The range test of the source accepts the float 0.0, yet
  \<open>validate_plugin\<close> reports a threshold defect for
  \<^verbatim>\<open>{type: jailbreak, configuration: {enabled: true, threshold: 0.0}}\<close>: the value is
  falsy, so \<^verbatim>\<open>config.get('threshold') or config.get('similarity_threshold')\<close> is
  \<^verbatim>\<open>None\<close>, which is not a number.
\<close>

theorem zero_threshold_rejected: "\<not> bad_threshold (PFloat (Finite 0))
  \<and> validate_plugin opaque_repr
      (PDict [(PStr ''type'', PStr ''jailbreak''),
              (PStr ''configuration'',
               PDict [(PStr ''enabled'', PBool True), (PStr ''threshold'', PFloat (Finite 0))])])
    = Inr [''Plugin 'jailbreak': threshold must be between 0.0 and 1.0'']"
  by (simp add: validate_plugin_def bindE_def dict_get_def SUPPORTED_PLUGINS_def
      schema_required_def PLUGIN_SCHEMAS_def plugin_check_defs bad_threshold_def sq_def)

text \<open>
  The rest of C2 holds. With \<^verbatim>\<open>threshold\<close> alone in the configuration, a number in the
  interval other than zero raises no threshold defect, and a number below 0 or above 1
  raises exactly one.
\<close>

lemma number_pos_truthy: "number_of v = Some x \<Longrightarrow> x \<noteq> Finite 0 \<Longrightarrow> truthy v"
  by (cases v) (auto split: if_splits)

lemma threshold_defect_has_pattern:
  "py_substring ''threshold must be between 0.0 and 1.0''
     (''Plugin '' @ sq @ pt @ sq @ '': threshold must be between 0.0 and 1.0'')"
proof -
  have "''Plugin '' @ sq @ pt @ sq @ '': threshold must be between 0.0 and 1.0''
        = (''Plugin '' @ sq @ pt @ sq @ '': '') @ ''threshold must be between 0.0 and 1.0'' @ []"
    by simp
  then show ?thesis by (simp only: py_substring_append)
qed

lemma dot_free_no_pattern:
  assumes free: "CHR ''.'' \<notin> set e"
  shows "\<not> py_substring ''threshold must be between 0.0 and 1.0'' e"
proof
  assume "py_substring ''threshold must be between 0.0 and 1.0'' e"
  then have "set ''threshold must be between 0.0 and 1.0'' \<subseteq> set e" by (rule py_substring_set)
  then have "CHR ''.'' \<in> set e" by simp
  with free show False by simp
qed

lemma threshold_alone_in_range:
  assumes "t \<in> set SUPPORTED_PLUGINS"
    and "dict_get p ''type'' = Some (PStr t)"
    and "dict_get p ''configuration'' = Some (PDict c)"
    and "dict_get c ''threshold'' = Some v"
    and "dict_get c ''similarity_threshold'' = None"
    and "number_of v = Some (Finite q)" and "0 < q" and "q \<le> 1"
  shows "\<exists>errs. validate_plugin rp (PDict p) = Inr errs
          \<and> filter (py_substring ''threshold must be between 0.0 and 1.0'') errs = []"
proof -
  obtain pre thr post where run: "validate_plugin rp (PDict p) = Inr (pre @ thr @ post)"
    and thr: "check_threshold t (PDict c) [] = Inr thr"
    and rest: "\<forall>e\<in>set (pre @ post). CHR ''.'' \<notin> set e"
    using validate_plugin_mapping_config [OF assms(1-3)] by blast
  have "truthy v" using assms(6,7) by (auto intro: number_pos_truthy)
  moreover have "\<not> bad_threshold v" using assms(6-8) by (simp add: bad_threshold_def)
  ultimately have "check_threshold t (PDict c) [] = Inr []"
    using assms(4) by (simp add: check_threshold_mapping threshold_defects_def selected_threshold_def)
  with thr have "thr = []" by simp
  moreover have "filter (py_substring ''threshold must be between 0.0 and 1.0'') (pre @ post) = []"
    using rest by (simp only: filter_empty_conv) (blast dest: dot_free_no_pattern)
  ultimately show ?thesis using run by simp
qed

lemma threshold_alone_out_of_range:
  assumes "t \<in> set SUPPORTED_PLUGINS"
    and "dict_get p ''type'' = Some (PStr t)"
    and "dict_get p ''configuration'' = Some (PDict c)"
    and "dict_get c ''threshold'' = Some v"
    and "dict_get c ''similarity_threshold'' = None"
    and "number_of v = Some x"
    and "float_lt x (Finite 0) \<or> float_lt (Finite 1) x"
  shows "\<exists>errs. validate_plugin rp (PDict p) = Inr errs
          \<and> length (filter (py_substring ''threshold must be between 0.0 and 1.0'') errs) = 1"
proof -
  obtain pre thr post where run: "validate_plugin rp (PDict p) = Inr (pre @ thr @ post)"
    and thr: "check_threshold t (PDict c) [] = Inr thr"
    and rest: "\<forall>e\<in>set (pre @ post). CHR ''.'' \<notin> set e"
    using validate_plugin_mapping_config [OF assms(1-3)] by blast
  have "x \<noteq> Finite 0" using assms(7) by auto
  then have "truthy v" using assms(6) by (rule number_pos_truthy [rotated])
  moreover have "bad_threshold v" using assms(6,7) by (simp add: bad_threshold_def)
  ultimately have "check_threshold t (PDict c) [] =
      Inr [''Plugin '' @ sq @ t @ sq @ '': threshold must be between 0.0 and 1.0'']"
    using assms(4) by (simp add: check_threshold_mapping threshold_defects_def selected_threshold_def)
  with thr have thr': "thr = [''Plugin '' @ sq @ t @ sq @ '': threshold must be between 0.0 and 1.0'']"
    by simp
  have "filter (py_substring ''threshold must be between 0.0 and 1.0'') (pre @ post) = []"
    using rest by (simp only: filter_empty_conv) (blast dest: dot_free_no_pattern)
  then have "filter (py_substring ''threshold must be between 0.0 and 1.0'') pre = []"
    and "filter (py_substring ''threshold must be between 0.0 and 1.0'') post = []"
    by simp_all
  then have "filter (py_substring ''threshold must be between 0.0 and 1.0'') (pre @ thr @ post)
      = [''Plugin '' @ sq @ t @ sq @ '': threshold must be between 0.0 and 1.0'']"
    unfolding thr' filter_append by (simp only: threshold_defect_has_pattern filter.simps if_True append_Nil append_Nil2)
  with run show ?thesis by simp
qed

text \<open>
  C9. For every supported plugin whose configuration is a mapping holding both
  \<^verbatim>\<open>threshold\<close> and \<^verbatim>\<open>similarity_threshold\<close>: when the value of \<^verbatim>\<open>threshold\<close> is truthy
  and is a number \<open>q\<close> with \<open>0 \<le> q \<le> 1\<close>, \<open>validate_plugin\<close> returns and no defect
  of its result contains \<^verbatim>\<open>threshold must be between 0.0 and 1.0\<close>, whatever the value
  \<open>w\<close> of \<^verbatim>\<open>similarity_threshold\<close> is.
\<close>

theorem threshold_preferred_over_similarity:
  assumes "t \<in> set SUPPORTED_PLUGINS"
    and "dict_get p ''type'' = Some (PStr t)"
    and "dict_get p ''configuration'' = Some (PDict c)"
    and "dict_get c ''threshold'' = Some v"
    and "dict_get c ''similarity_threshold'' = Some w"
    and "truthy v"
    and "number_of v = Some (Finite q)" and "0 \<le> q" and "q \<le> 1"
  shows "\<exists>errs. validate_plugin rp (PDict p) = Inr errs
          \<and> filter (py_substring ''threshold must be between 0.0 and 1.0'') errs = []"
proof -
  obtain pre thr post where run: "validate_plugin rp (PDict p) = Inr (pre @ thr @ post)"
    and thr: "check_threshold t (PDict c) [] = Inr thr"
    and rest: "\<forall>e\<in>set (pre @ post). CHR ''.'' \<notin> set e"
    using validate_plugin_mapping_config [OF assms(1-3)] by blast
  have "\<not> bad_threshold v"
    using assms(7-9) by (simp add: bad_threshold_def)
  then have "check_threshold t (PDict c) [] = Inr []"
    using assms(4-6) by (simp add: check_threshold_mapping threshold_defects_def selected_threshold_def)
  with thr have "thr = []" by simp
  have "\<not> py_substring ''threshold must be between 0.0 and 1.0'' e" if "e \<in> set (pre @ post)" for e
  proof
    assume "py_substring ''threshold must be between 0.0 and 1.0'' e"
    then have "set ''threshold must be between 0.0 and 1.0'' \<subseteq> set e" by (rule py_substring_set)
    then have "CHR ''.'' \<in> set e" by simp
    with rest that show False by blast
  qed
  with run \<open>thr = []\<close> show ?thesis by (simp add: filter_empty_conv)
qed

theorem threshold_preferred_over_similarity_witness:
  "''jailbreak'' \<in> set SUPPORTED_PLUGINS
   \<and> dict_get [(PStr ''type'', PStr ''jailbreak''),
                (PStr ''configuration'',
                 PDict [(PStr ''enabled'', PBool True),
                        (PStr ''threshold'', PFloat (Finite (1 / 2))),
                        (PStr ''similarity_threshold'', PInt 7)])] ''type''
       = Some (PStr ''jailbreak'')
   \<and> dict_get [(PStr ''type'', PStr ''jailbreak''),
                (PStr ''configuration'',
                 PDict [(PStr ''enabled'', PBool True),
                        (PStr ''threshold'', PFloat (Finite (1 / 2))),
                        (PStr ''similarity_threshold'', PInt 7)])] ''configuration''
       = Some (PDict [(PStr ''enabled'', PBool True),
                      (PStr ''threshold'', PFloat (Finite (1 / 2))),
                      (PStr ''similarity_threshold'', PInt 7)])
   \<and> dict_get [(PStr ''enabled'', PBool True),
                (PStr ''threshold'', PFloat (Finite (1 / 2))),
                (PStr ''similarity_threshold'', PInt 7)] ''threshold''
       = Some (PFloat (Finite (1 / 2)))
   \<and> dict_get [(PStr ''enabled'', PBool True),
                (PStr ''threshold'', PFloat (Finite (1 / 2))),
                (PStr ''similarity_threshold'', PInt 7)] ''similarity_threshold''
       = Some (PInt 7)
   \<and> truthy (PFloat (Finite (1 / 2)))
   \<and> number_of (PFloat (Finite (1 / 2))) = Some (Finite (1 / 2))
   \<and> (0::rat) \<le> 1 / 2 \<and> (1 / 2 :: rat) \<le> 1
   \<and> (\<exists>errs. validate_plugin opaque_repr
          (PDict [(PStr ''type'', PStr ''jailbreak''),
                  (PStr ''configuration'',
                   PDict [(PStr ''enabled'', PBool True),
                          (PStr ''threshold'', PFloat (Finite (1 / 2))),
                          (PStr ''similarity_threshold'', PInt 7)])]) = Inr errs
        \<and> filter (py_substring ''threshold must be between 0.0 and 1.0'') errs = [])"
proof -
  have h1: "''jailbreak'' \<in> set SUPPORTED_PLUGINS"
    by (simp add: SUPPORTED_PLUGINS_def)
  have h2: "dict_get [(PStr ''type'', PStr ''jailbreak''),
                (PStr ''configuration'',
                 PDict [(PStr ''enabled'', PBool True),
                        (PStr ''threshold'', PFloat (Finite (1 / 2))),
                        (PStr ''similarity_threshold'', PInt 7)])] ''type''
       = Some (PStr ''jailbreak'')"
    by (simp add: dict_get_def)
  have h3: "dict_get [(PStr ''type'', PStr ''jailbreak''),
                (PStr ''configuration'',
                 PDict [(PStr ''enabled'', PBool True),
                        (PStr ''threshold'', PFloat (Finite (1 / 2))),
                        (PStr ''similarity_threshold'', PInt 7)])] ''configuration''
       = Some (PDict [(PStr ''enabled'', PBool True),
                      (PStr ''threshold'', PFloat (Finite (1 / 2))),
                      (PStr ''similarity_threshold'', PInt 7)])"
    by (simp add: dict_get_def)
  have h4: "dict_get [(PStr ''enabled'', PBool True),
                (PStr ''threshold'', PFloat (Finite (1 / 2))),
                (PStr ''similarity_threshold'', PInt 7)] ''threshold''
       = Some (PFloat (Finite (1 / 2)))"
    by (simp add: dict_get_def)
  have h5: "dict_get [(PStr ''enabled'', PBool True),
                (PStr ''threshold'', PFloat (Finite (1 / 2))),
                (PStr ''similarity_threshold'', PInt 7)] ''similarity_threshold''
       = Some (PInt 7)"
    by (simp add: dict_get_def)
  have h6: "truthy (PFloat (Finite (1 / 2)))" by simp
  have h7: "number_of (PFloat (Finite (1 / 2))) = Some (Finite (1 / 2))" by simp
  have h8: "(0::rat) \<le> 1 / 2" by simp
  have h9: "(1 / 2 :: rat) \<le> 1" by simp
  from h1 h2 h3 h4 h5 h6 h7 h8 h9 threshold_preferred_over_similarity [OF h1 h2 h3 h4 h5 h6 h7 h8 h9, of opaque_repr]
  show ?thesis by (intro conjI)
qed

subsection \<open>Integers with too many digits\<close>

lemma str_nat_digits: "10 ^ k \<le> n \<Longrightarrow> k < length (str_nat n)"
proof (induction k arbitrary: n)
  case 0
  show ?case by (subst str_nat.simps) simp
next
  case (Suc k)
  from Suc.prems have le: "10 * 10 ^ k \<le> n" by simp
  have "(1::nat) \<le> 10 ^ k" by simp
  then have "(10::nat) \<le> 10 * 10 ^ k" by simp
  with le have big: "\<not> n < 10" by linarith
  from le have "10 ^ k \<le> n div 10" by simp
  then have "k < length (str_nat (n div 10))" using Suc.IH by blast
  then show ?case using big by (subst str_nat.simps) simp
qed

lemma str_int_too_long: "10 ^ int_max_str_digits \<le> \<bar>i\<bar> \<Longrightarrow> str_int i = Inl ValueError"
proof -
  assume "10 ^ int_max_str_digits \<le> \<bar>i\<bar>"
  then have "(10::nat) ^ int_max_str_digits \<le> nat \<bar>i\<bar>"
    by (metis nat_mono nat_numeral nat_power_eq zero_le_numeral)
  then have "int_max_str_digits < length (str_nat (nat \<bar>i\<bar>))" by (rule str_nat_digits)
  then show ?thesis by (simp add: str_int_def Let_def)
qed

text \<open>
  An integer of more than 4300 digits cannot be formatted: as the \<^verbatim>\<open>type\<close> of a plugin
  it makes the message for an unsupported type, and so \<open>validate_config\<close>, raise
  \<^verbatim>\<open>ValueError\<close>; as the \<^verbatim>\<open>name\<close> of an endpoint it makes \<open>generate_config\<close> raise it.
\<close>

lemma validate_config_raises_on_long_type:
  "validate_config opaque_repr
     (PDict [(PStr ''version'', PStr ''1.0''), (PStr ''listeners'', PList []),
             (PStr ''decisions'',
              PList [PDict [(PStr ''plugins'',
                             PList [PDict [(PStr ''type'', PInt (10 ^ int_max_str_digits))]])]])])
   = Inl ValueError"
proof -
  have "py_str opaque_repr (PInt (10 ^ int_max_str_digits)) = Inl ValueError"
    by (simp add: str_int_too_long)
  moreover have "PInt (10 ^ int_max_str_digits) \<notin> set (map PStr SUPPORTED_PLUGINS)"
    by auto
  ultimately have "validate_plugin opaque_repr
      (PDict [(PStr ''type'', PInt (10 ^ int_max_str_digits))]) = Inl ValueError"
    by (simp add: validate_plugin_def bindE_def dict_get_def del: py_str.simps set_map)
  then show ?thesis
    by (simp add: validate_config_def check_decision_def check_plugin_def bindE_def dict_get_def)
qed

lemma generate_config_raises_on_long_name:
  "generate_config opaque_dump opaque_repr
     (PDict [(PStr ''endpoints'',
              PList [PDict [(PStr ''name'', PInt (10 ^ int_max_str_digits)),
                            (PStr ''url'', PStr ''u1'')]])]) = Inl ValueError"
proof -
  have "py_str opaque_repr (PInt (10 ^ int_max_str_digits)) = Inl ValueError"
    by (simp add: str_int_too_long)
  then show ?thesis
    by (simp add: generate_config_def generate_document_def add_decision_def bindE_def
        dict_get_def del: py_str.simps)
qed

subsection \<open>Loops whose bodies append\<close>







subsection \<open>validate_config on documents of the expected shape\<close>









subsection \<open>The generator\<close>












end
